theory Spec2Isabelle
  imports Main
begin

section \<open>Python values, dictionaries and strings\<close>

text \<open>
  The values the AIM client handles are dynamically typed: configuration attributes,
  search parameters and the parsed JSON body of a response. They are modelled by one
  datatype. A dictionary is an association list in insertion order, with string keys
  (keyword arguments and JSON object keys are strings); a well-formed dictionary has
  distinct keys. Floating point numbers are not modelled.
\<close>

datatype pyval =
    PNone
  | PBool bool
  | PInt int
  | PStr string
  | PList "pyval list"
  | PDict "(string \<times> pyval) list"

type_synonym dict = "(string \<times> pyval) list"

text \<open>
  Built-in and library exceptions are kept by class. \<open>JSONDecodeError\<close> is a subclass of
  \<open>ValueError\<close>, and aiohttp's \<open>ContentTypeError\<close> a subclass of \<open>ClientError\<close>;
  \<open>OtherError\<close> stands for any class that none of the handlers of aim.py names.
\<close>

datatype py_error =
    TypeError
  | ValueError
  | KeyError
  | AttributeError
  | AssertionError
  | JSONDecodeError
  | ContentTypeError
  | ClientError
  | OtherError

text \<open>
  An f-string is kept as the list of its pieces: literal text, \<open>str\<close> of a value,
  \<open>repr\<close> of a value (\<open>!r\<close>), \<open>type\<close> of a value, and \<open>str\<close> of a caught exception.
  Concatenating two texts is appending the lists; the empty list is the empty string.
\<close>

datatype frag =
    Lit string
  | Str pyval
  | Repr pyval
  | TypeOf pyval
  | StrErr py_error

type_synonym fstring = "frag list"

text \<open>
  The exception classes of exceptions.py, which is not among the sources, are taken as
  five distinct classes, none of them a \<open>KeyError\<close>, \<open>ValueError\<close>, \<open>ContentTypeError\<close> or
  \<open>aiohttp.ClientError\<close>: the docstring of \<open>handle_aim_request\<close> lists them as raised
  to the caller. \<open>CyberarkAPIException\<close> and \<open>CyberarkAIMnotFound\<close> carry the HTTP status,
  the error code, the error message and the details.
\<close>

datatype detail =
    FromBody pyval
  | Formatted fstring

datatype exn =
    PyError py_error
  | AiobastionException fstring
  | AiobastionConfigurationException fstring
  | CyberarkException fstring
  | CyberarkAPIException int pyval pyval detail
  | CyberarkAIMnotFound int pyval pyval detail

subsection \<open>Strings\<close>

text \<open>
  A string is its UTF-8 text, a list of bytes. \<open>str.lower\<close> maps the ASCII capitals and
  the KELVIN SIGN (U+212A, the bytes E2 84 AA), which is the one character outside ASCII
  that Python lowers to an ASCII letter, \<open>k\<close>. The other characters outside ASCII are
  left as they are: their lowercase forms are outside ASCII as well, so a key that holds
  one is in none of the fixed lists below, in Python as in this model, and takes the
  same branch in both.
\<close>

definition lower_char :: "char \<Rightarrow> char" where
  "lower_char c =
     (case map_of (zip ''ABCDEFGHIJKLMNOPQRSTUVWXYZ'' ''abcdefghijklmnopqrstuvwxyz'') c of
        None \<Rightarrow> c
      | Some l \<Rightarrow> l)"

fun lower :: "string \<Rightarrow> string" where
  "lower (a # b # c # cs) =
     (if a = CHR 0xE2 \<and> b = CHR 0x84 \<and> c = CHR 0xAA then CHR ''k'' # lower cs
      else lower_char a # lower (b # c # cs))"
| "lower (a # cs) = lower_char a # lower cs"
| "lower [] = []"

text \<open>\<open>a in b\<close> for two strings: \<open>a\<close> occurs in \<open>b\<close> as a contiguous substring.\<close>

fun is_prefix :: "string \<Rightarrow> string \<Rightarrow> bool" where
  "is_prefix [] ys = True"
| "is_prefix (x # xs) [] = False"
| "is_prefix (x # xs) (y # ys) = (x = y \<and> is_prefix xs ys)"

fun str_in :: "string \<Rightarrow> string \<Rightarrow> bool" where
  "str_in a [] = (a = [])"
| "str_in a (y # ys) = (is_prefix a (y # ys) \<or> str_in a ys)"

subsection \<open>Dictionaries\<close>

definition dict_in :: "string \<Rightarrow> dict \<Rightarrow> bool" where
  "dict_in k d = (map_of d k \<noteq> None)"

text \<open>\<open>d[k] = v\<close>: an existing key keeps its position, a new key goes to the end.\<close>

fun dict_setitem :: "dict \<Rightarrow> string \<Rightarrow> pyval \<Rightarrow> dict" where
  "dict_setitem [] k v = [(k, v)]"
| "dict_setitem ((k', v') # d) k v =
     (if k' = k then (k, v) # d else (k', v') # dict_setitem d k v)"



definition dict_getitem :: "dict \<Rightarrow> string \<Rightarrow> py_error + pyval" where
  "dict_getitem d k = (case map_of d k of None \<Rightarrow> Inl KeyError | Some v \<Rightarrow> Inr v)"

definition dict_setdefault :: "dict \<Rightarrow> string \<Rightarrow> pyval \<Rightarrow> dict" where
  "dict_setdefault d k v = (if dict_in k d then d else d @ [(k, v)])"

text \<open>
  The operator \<open>in\<close> with a string on the left: key membership for a dictionary, element
  membership for a list, substring for a string, \<open>TypeError\<close> for a value that is not
  iterable.
\<close>

fun py_in :: "string \<Rightarrow> pyval \<Rightarrow> py_error + bool" where
  "py_in k (PDict d) = Inr (dict_in k d)"
| "py_in k (PList xs) = Inr (PStr k \<in> set xs)"
| "py_in k (PStr s) = Inr (str_in k s)"
| "py_in k PNone = Inl TypeError"
| "py_in k (PBool b) = Inl TypeError"
| "py_in k (PInt n) = Inl TypeError"

text \<open>Subscription \<open>x[k]\<close> with a string key.\<close>

fun py_getitem :: "pyval \<Rightarrow> string \<Rightarrow> py_error + pyval" where
  "py_getitem (PDict d) k = dict_getitem d k"
| "py_getitem x k = Inl TypeError"

text \<open>Truth value of an object, as \<open>if x:\<close> tests it.\<close>

fun truthy :: "pyval \<Rightarrow> bool" where
  "truthy PNone = False"
| "truthy (PBool b) = b"
| "truthy (PInt n) = (n \<noteq> 0)"
| "truthy (PStr s) = (s \<noteq> [])"
| "truthy (PList xs) = (xs \<noteq> [])"
| "truthy (PDict d) = (d \<noteq> [])"

section \<open>The parameter validator\<close>






section \<open>The AIM client\<close>

text \<open>
  The constants of the class \<open>EPV\<close> (cyberark.py is not among the sources) are parameters
  of the model.
\<close>

record EPV_constants =
  CYBERARK_DEFAULT_TIMEOUT :: pyval
  CYBERARK_DEFAULT_MAX_CONCURRENT_TASKS :: pyval
  CYBERARK_DEFAULT_KEEP_COOKIES :: pyval
  CYBERARK_DEFAULT_VERIFY :: pyval

text \<open>
  The TLS context that \<open>ssl.create_default_context\<close> returns: where its trusted
  certificates come from (the platform's default store, \<open>cafile\<close> or \<open>capath\<close>), whether
  host names are checked (the default context checks them), and the client certificate
  chain loaded into it (certificate, key file, password).
\<close>

datatype trust = DefaultStore | CAFile string | CAPath string

record ssl_context =
  trust_source :: trust
  check_hostname :: bool
  cert_chain :: "(pyval \<times> pyval \<times> pyval) option"

text \<open>
  What the client asks of the operating system and of the Python library: the file
  system (\<open>os.path.exists\<close>, \<open>os.path.isdir\<close>), whether the two calls into \<open>ssl\<close> raise
  (\<open>None\<close>: they return), the built-in \<open>int\<close> on a string (\<open>None\<close>: \<open>ValueError\<close>), and
  the enumeration \<open>http.HTTPStatus\<close> (the phrase of a member; \<open>None\<close> for a number that
  is not a member, where \<open>HTTPStatus(n)\<close> raises \<open>ValueError\<close>).
\<close>

record env =
  os_path_exists :: "pyval \<Rightarrow> bool"
  os_path_isdir :: "string \<Rightarrow> bool"
  create_default_context :: "trust \<Rightarrow> py_error option"
  load_cert_chain :: "pyval \<Rightarrow> pyval \<Rightarrow> pyval \<Rightarrow> py_error option"
  int_of_str :: "string \<Rightarrow> int option"
  HTTPStatus :: "int \<Rightarrow> string option"

text \<open>
  The attributes of an \<open>EPV_AIM\<close> object. \<open>sema\<close> is the attribute \<open>__sema\<close>: the free
  permits of the semaphore, once there is one. \<open>session\<close> is the identity of the
  \<open>aiohttp.ClientSession\<close>. \<open>request_params\<close> is the dictionary of \<open>timeout\<close> and \<open>ssl\<close>.
  The last two fields are not attributes: they count the \<open>ClientSession\<close> and
  \<open>Semaphore\<close> objects that the client has constructed.
\<close>

record EPV_AIM =
  host :: pyval
  appid :: pyval
  cert :: pyval
  key :: pyval
  passphrase :: pyval
  verify :: pyval
  timeout :: pyval
  max_concurrent_tasks :: pyval
  keep_cookies :: pyval
  sema :: "nat option"
  session :: "nat option"
  request_params :: "(pyval \<times> ssl_context) option"
  sessions_constructed :: nat
  semaphores_constructed :: nat

definition SERIALIZED_FIELDS_IN :: "string list" where
  "SERIALIZED_FIELDS_IN =
     [''host'', ''appid'', ''cert'', ''key'', ''verify'', ''timeout'', ''max_concurrent_tasks'',
      ''keep_cookies'', ''passphrase'']"

definition getattr :: "EPV_AIM \<Rightarrow> string \<Rightarrow> pyval" where
  "getattr self name =
     (if name = ''host'' then host self
      else if name = ''appid'' then appid self
      else if name = ''cert'' then cert self
      else if name = ''key'' then key self
      else if name = ''passphrase'' then passphrase self
      else if name = ''verify'' then verify self
      else if name = ''timeout'' then timeout self
      else if name = ''max_concurrent_tasks'' then max_concurrent_tasks self
      else if name = ''keep_cookies'' then keep_cookies self
      else PNone)"

definition setattr :: "EPV_AIM \<Rightarrow> string \<Rightarrow> pyval \<Rightarrow> EPV_AIM" where
  "setattr self name v =
     (if name = ''host'' then self\<lparr>host := v\<rparr>
      else if name = ''appid'' then self\<lparr>appid := v\<rparr>
      else if name = ''cert'' then self\<lparr>cert := v\<rparr>
      else if name = ''key'' then self\<lparr>key := v\<rparr>
      else if name = ''passphrase'' then self\<lparr>passphrase := v\<rparr>
      else if name = ''verify'' then self\<lparr>verify := v\<rparr>
      else if name = ''timeout'' then self\<lparr>timeout := v\<rparr>
      else if name = ''max_concurrent_tasks'' then self\<lparr>max_concurrent_tasks := v\<rparr>
      else if name = ''keep_cookies'' then self\<lparr>keep_cookies := v\<rparr>
      else self)"

definition quote :: string where
  "quote = [CHR 0x27]"

subsection \<open>The constructor\<close>

fun init_serialized :: "dict \<Rightarrow> EPV_AIM \<Rightarrow> exn + EPV_AIM" where
  "init_serialized [] self = Inr self"
| "init_serialized ((k, v) # items) self =
     (let keyname = lower k in
      if keyname \<in> set SERIALIZED_FIELDS_IN then init_serialized items (setattr self keyname v)
      else Inl (AiobastionException [Lit ''Unknown serialized AIM field: '', Lit k, Lit '' = '', Repr v]))"

definition isinstance_str :: "pyval \<Rightarrow> bool" where
  "isinstance_str v = (case v of PStr s \<Rightarrow> True | _ \<Rightarrow> False)"

definition isinstance_bool :: "pyval \<Rightarrow> bool" where
  "isinstance_bool v = (case v of PBool b \<Rightarrow> True | _ \<Rightarrow> False)"

text \<open>
  \<open>EPV_AIM.__init__\<close>, with every keyword argument given; \<open>serialized\<close> is \<open>None\<close> or a
  dictionary.
\<close>

definition EPV_AIM_init ::
  "EPV_constants \<Rightarrow> pyval \<Rightarrow> pyval \<Rightarrow> pyval \<Rightarrow> pyval \<Rightarrow> pyval \<Rightarrow> pyval \<Rightarrow> pyval \<Rightarrow> pyval \<Rightarrow> pyval
     \<Rightarrow> dict option \<Rightarrow> exn + EPV_AIM" where
  "EPV_AIM_init EPV host' appid' cert' key' passphrase' verify' timeout' max_concurrent_tasks'
       keep_cookies' serialized =
     (let self = \<lparr>host = host', appid = appid', cert = cert', key = key',
                  passphrase = passphrase', verify = verify', timeout = timeout',
                  max_concurrent_tasks = max_concurrent_tasks', keep_cookies = keep_cookies',
                  sema = None, session = None, request_params = None,
                  sessions_constructed = 0, semaphores_constructed = 0\<rparr>
      in case (case serialized of
                 None \<Rightarrow> Inr self
               | Some d \<Rightarrow> if d \<noteq> [] then init_serialized d self else Inr self) of
           Inl e \<Rightarrow> Inl e
         | Inr self1 \<Rightarrow>
             (let self2 = (if timeout self1 = PNone
                           then self1\<lparr>timeout := CYBERARK_DEFAULT_TIMEOUT EPV\<rparr> else self1);
                  self3 = (if max_concurrent_tasks self2 = PNone
                           then self2\<lparr>max_concurrent_tasks :=
                                         CYBERARK_DEFAULT_MAX_CONCURRENT_TASKS EPV\<rparr>
                           else self2)
              in if verify self3 \<noteq> PBool False
                    \<and> \<not> (isinstance_str (verify self3) \<and> \<not> isinstance_bool (verify self3))
                 then Inl (AiobastionException
                        [Lit ''Invalid type for parameter '', Lit quote, Lit ''verify'', Lit quote,
                         Lit '' in AIM: '', TypeOf (verify self3), Lit '' value: '',
                         Repr (verify self3)])
                 else Inr self3))"

subsection \<open>The TLS session builder\<close>

definition missing_mandatory :: "string \<Rightarrow> fstring" where
  "missing_mandatory attr_name =
     [Lit ''Missing AIM mandatory parameter '', Lit quote, Lit attr_name, Lit quote, Lit ''.'',
      Lit '' Required parameters are: host, appid, key.'']"

fun check_mandatory :: "EPV_AIM \<Rightarrow> string list \<Rightarrow> exn option" where
  "check_mandatory self [] = None"
| "check_mandatory self (attr_name # rest) =
     (if getattr self attr_name = PNone
      then Some (AiobastionException (missing_mandatory attr_name))
      else check_mandatory self rest)"

text \<open>
  The end of \<open>validate_and_setup_aim_ssl\<close>: the context is created, the client
  certificate is loaded into it, and \<open>request_params\<close> is set.
\<close>

definition setup_ssl_context :: "env \<Rightarrow> EPV_AIM \<Rightarrow> trust \<Rightarrow> bool \<Rightarrow> exn option \<times> EPV_AIM" where
  "setup_ssl_context E self src hostname =
     (case create_default_context E src of
        Some e \<Rightarrow> (Some (PyError e), self)
      | None \<Rightarrow>
          (case load_cert_chain E (cert self) (key self) (passphrase self) of
             Some e \<Rightarrow> (Some (PyError e), self)
           | None \<Rightarrow>
               (None,
                self\<lparr>request_params :=
                  Some (timeout self,
                        \<lparr>trust_source = src, check_hostname = hostname,
                         cert_chain = Some (cert self, key self, passphrase self)\<rparr>)\<rparr>)))"

text \<open>
  A call returns (\<open>None\<close>) or raises (\<open>Some\<close>); the object is returned as the call leaves
  it, also when it raises.
\<close>

definition validate_and_setup_aim_ssl ::
  "env \<Rightarrow> EPV_constants \<Rightarrow> EPV_AIM \<Rightarrow> exn option \<times> EPV_AIM" where
  "validate_and_setup_aim_ssl E EPV self =
     (if session self \<noteq> None then (None, self)
      else case check_mandatory self [''host'', ''appid'', ''cert''] of
        Some e \<Rightarrow> (Some e, self)
      | None \<Rightarrow>
          if \<not> os_path_exists E (cert self) then
            (Some (AiobastionException
               [Lit ''Parameter '', Lit quote, Lit ''cert'', Lit quote,
                Lit '' in AIM: Public certificate file not found: '', Repr (cert self)]), self)
          else if truthy (key self) \<and> \<not> os_path_exists E (key self) then
            (Some (AiobastionException
               [Lit ''Parameter '', Lit quote, Lit ''key'', Lit quote,
                Lit '' in AIM: Private key certificat file not found: '', Repr (key self)]), self)
          else
            (let self1 = (if verify self = PBool False
                          then self\<lparr>verify := CYBERARK_DEFAULT_VERIFY EPV\<rparr> else self)
             in case verify self1 of
                  PStr path \<Rightarrow>
                    if \<not> os_path_exists E (PStr path) then
                      (Some (AiobastionException
                         [Lit ''Parameter '', Lit quote, Lit ''verify'', Lit quote,
                          Lit '' in AIM: file not found '', Repr (PStr path)]), self1)
                    else if os_path_isdir E path
                      then setup_ssl_context E self1 (CAPath path) True
                      else setup_ssl_context E self1 (CAFile path) True
                | PBool b \<Rightarrow> setup_ssl_context E self1 DefaultStore b
                | v \<Rightarrow>
                    (Some (AiobastionException
                       [Lit ''Invalid type for parameter '', Lit quote, Lit ''verify'', Lit quote,
                        Lit '' (or '', Lit quote, Lit ''CA'', Lit quote, Lit '') in AIM: '',
                        TypeOf v, Lit '' value: '', Repr v]), self1)))"

subsection \<open>The session and its gate\<close>

text \<open>\<open>asyncio.Semaphore(value)\<close>: the free permits, or the exception of the constructor.\<close>

fun Semaphore :: "pyval \<Rightarrow> py_error + nat" where
  "Semaphore (PInt n) = (if n < 0 then Inl ValueError else Inr (nat n))"
| "Semaphore (PBool b) = Inr (if b then 1 else 0)"
| "Semaphore v = Inl TypeError"

definition get_aim_session ::
  "env \<Rightarrow> EPV_constants \<Rightarrow> EPV_AIM \<Rightarrow> (exn + nat option) \<times> EPV_AIM" where
  "get_aim_session E EPV self =
     (case (if session self = None then
              (case (if request_params self = None
                     then validate_and_setup_aim_ssl E EPV self else (None, self)) of
                 (Some e, self1) \<Rightarrow> (Some e, self1)
               | (None, self1) \<Rightarrow>
                   (None, self1\<lparr>session := Some (sessions_constructed self1),
                                sessions_constructed := Suc (sessions_constructed self1)\<rparr>))
            else (None, self)) of
        (Some e, self2) \<Rightarrow> (Inl e, self2)
      | (None, self2) \<Rightarrow>
          (if sema self2 = None then
             (case Semaphore (max_concurrent_tasks self2) of
                Inl e \<Rightarrow> (Inl (PyError e), self2)
              | Inr permits \<Rightarrow>
                  (let self3 = self2\<lparr>sema := Some permits,
                                     semaphores_constructed := Suc (semaphores_constructed self2)\<rparr>
                   in (Inr (session self3), self3)))
           else (Inr (session self2), self2)))"

text \<open>\<open>close_aim_session\<close>; closing the \<open>aiohttp\<close> session is taken to return.\<close>

definition close_aim_session :: "EPV_AIM \<Rightarrow> EPV_AIM" where
  "close_aim_session self = self\<lparr>session := None, sema := None\<rparr>"

section \<open>The request executor\<close>

definition get_url :: "EPV_AIM \<Rightarrow> string \<Rightarrow> fstring \<times> dict" where
  "get_url self url =
     ([Lit ''https://'', Str (host self), Lit ''/AIMWebService/api/'', Lit url],
      [(''Content-type'', PStr ''application/json'')])"

definition handle_error_detail_info :: "fstring \<Rightarrow> dict \<Rightarrow> fstring" where
  "handle_error_detail_info url params =
     (let params_new = (if dict_in ''appid'' params
                        then dict_setitem params ''appid'' (PStr ''<hidden>'') else params)
      in [Lit ''url: ''] @ url @ [Lit '', params: '', Str (PDict params_new)])"

text \<open>The details of an error response: the field \<open>Details\<close> of the body when it has one.\<close>

definition details_of :: "fstring \<Rightarrow> dict \<Rightarrow> dict \<Rightarrow> detail" where
  "details_of url params_new resp_json =
     (case map_of resp_json ''Details'' of
        Some d \<Rightarrow> FromBody d
      | None \<Rightarrow> Formatted (handle_error_detail_info url params_new))"

text \<open>Lines 414 to 418 of aim.py: the parameters that are sent.\<close>

definition request_parameters :: "EPV_AIM \<Rightarrow> dict \<Rightarrow> dict" where
  "request_parameters self params =
     (if \<not> dict_in ''applid'' params then dict_setdefault params ''appid'' (appid self)
      else params)"

text \<open>
  What the network gives to the one GET of a call: \<open>session.request\<close> raises, or there is
  a response with its status, whose body \<open>req.json()\<close> parses to a value or fails on.
\<close>

datatype body = JsonBody pyval | JsonRaises py_error

datatype net_event = RequestRaises py_error | Response int body

definition content_not_found :: string where
  "content_not_found = ''Could not find the password ('' @ quote @ ''Content'' @ quote @ '')''"

text \<open>
  The statements of the inner \<open>try\<close>, before any handler. \<open>filter_func\<close> is a function of
  the parsed body (the identity at its only call).
\<close>

definition try_body ::
  "env \<Rightarrow> fstring \<Rightarrow> dict \<Rightarrow> (pyval \<Rightarrow> 'r) \<Rightarrow> int \<Rightarrow> body \<Rightarrow> exn + 'r" where
  "try_body E url params_new filter_func status b =
     (case b of
        JsonRaises e \<Rightarrow> Inl (PyError e)
      | JsonBody resp_json \<Rightarrow>
          if status = 200 then
            (case py_in ''Content'' resp_json of
               Inl e \<Rightarrow> Inl (PyError e)
             | Inr has_content \<Rightarrow>
                 if \<not> has_content then
                   Inl (CyberarkAPIException status (PStr ''INVALID_JSON'')
                          (PStr content_not_found)
                          (Formatted (handle_error_detail_info url params_new)))
                 else Inr (filter_func resp_json))
          else
            (case (case py_in ''Details'' resp_json of
                     Inl e \<Rightarrow> Inl e
                   | Inr has_details \<Rightarrow>
                       if has_details then
                         (case py_getitem resp_json ''Details'' of
                            Inl e \<Rightarrow> Inl e
                          | Inr d \<Rightarrow> Inr (FromBody d))
                       else Inr (Formatted (handle_error_detail_info url params_new))) of
               Inl e \<Rightarrow> Inl (PyError e)
             | Inr details \<Rightarrow>
                 (case (case py_in ''ErrorCode'' resp_json of
                          Inl e \<Rightarrow> Inl e
                        | Inr has_code \<Rightarrow>
                            if has_code then py_in ''ErrorMsg'' resp_json else Inr False) of
                    Inl e \<Rightarrow> Inl (PyError e)
                  | Inr has_both \<Rightarrow>
                      if has_both then
                        (case py_getitem resp_json ''ErrorCode'' of
                           Inl e \<Rightarrow> Inl (PyError e)
                         | Inr error_code \<Rightarrow>
                             (case py_getitem resp_json ''ErrorMsg'' of
                                Inl e \<Rightarrow> Inl (PyError e)
                              | Inr error_msg \<Rightarrow>
                                  if error_code = PStr ''APPAP004E''
                                  then Inl (CyberarkAIMnotFound status error_code error_msg details)
                                  else Inl (CyberarkAPIException status error_code error_msg
                                              details)))
                      else
                        (case HTTPStatus E status of
                           None \<Rightarrow> Inl (PyError ValueError)
                         | Some phrase \<Rightarrow>
                             Inl (CyberarkAPIException status (PStr ''HTTP_ERR_CODE'')
                                    (PStr phrase) details)))))"

text \<open>
  The two handlers of the inner \<open>try\<close>, in their order: \<open>JSONDecodeError\<close> first, then
  \<open>KeyError\<close>, \<open>ValueError\<close> and \<open>ContentTypeError\<close>. Any other exception passes.
\<close>

definition inner_handlers ::
  "env \<Rightarrow> fstring \<Rightarrow> dict \<Rightarrow> int \<Rightarrow> exn + 'r \<Rightarrow> exn + 'r" where
  "inner_handlers E url params_new status res =
     (case res of
        Inr r \<Rightarrow> Inr r
      | Inl (PyError err) \<Rightarrow>
          if err = JSONDecodeError then
            (case HTTPStatus E status of
               None \<Rightarrow> Inl (PyError ValueError)
             | Some phrase \<Rightarrow>
                 Inl (CyberarkAPIException status (PStr ''HTTP_ERR_CODE'') (PStr phrase)
                        (Formatted (handle_error_detail_info url params_new))))
          else if err = KeyError \<or> err = ValueError \<or> err = ContentTypeError then
            Inl (CyberarkException
                   ([Lit ''HTTP error '', Str (PInt status), Lit '': '', StrErr err,
                     Lit '' || Additional Details : '']
                    @ handle_error_detail_info url params_new))
          else Inl (PyError err)
      | Inl e \<Rightarrow> Inl e)"

text \<open>The handler of the outer \<open>try\<close>: \<open>aiohttp.ClientError\<close> and its subclasses.\<close>

definition outer_handler :: "fstring \<Rightarrow> dict \<Rightarrow> exn + 'r \<Rightarrow> exn + 'r" where
  "outer_handler url params_new res =
     (case res of
        Inr r \<Rightarrow> Inr r
      | Inl (PyError err) \<Rightarrow>
          if err = ClientError \<or> err = ContentTypeError then
            Inl (CyberarkException
                   ([Lit ''HTTP error: '', StrErr err, Lit '' || Additional Details : '']
                    @ handle_error_detail_info url params_new))
          else Inl (PyError err)
      | Inl e \<Rightarrow> Inl e)"

text \<open>The outcome of the request, from \<open>session.request\<close> to the end of the outer \<open>try\<close>.\<close>

definition handle_response ::
  "env \<Rightarrow> fstring \<Rightarrow> dict \<Rightarrow> (pyval \<Rightarrow> 'r) \<Rightarrow> net_event \<Rightarrow> exn + 'r" where
  "handle_response E url params_new filter_func ev =
     outer_handler url params_new
       (case ev of
          RequestRaises e \<Rightarrow> Inl (PyError e)
        | Response status b \<Rightarrow>
            inner_handlers E url params_new status
              (try_body E url params_new filter_func status b))"

text \<open>
  A call of the executor returns, raises, or stays blocked on the semaphore: one call
  alone, with no other task to release a permit, does not resume when no permit is free.
\<close>

datatype 'r outcome = Return 'r | Raise exn | Block

text \<open>
  \<open>handle_aim_request\<close> up to the GET: the assertion on the method, the URL, the session,
  the parameters, the permit of the semaphore. \<open>Return (url, params_new)\<close> says that the
  GET is issued, with this URL and these parameters.
\<close>

definition open_request ::
  "env \<Rightarrow> EPV_constants \<Rightarrow> EPV_AIM \<Rightarrow> string \<Rightarrow> string \<Rightarrow> dict
     \<Rightarrow> (fstring \<times> dict) outcome \<times> EPV_AIM" where
  "open_request E EPV self method short_url params =
     (if lower method \<noteq> ''get'' then (Raise (PyError AssertionError), self)
      else
        (let (url, head) = get_url self short_url
         in case get_aim_session E EPV self of
              (Inl e, self1) \<Rightarrow> (Raise e, self1)
            | (Inr session', self1) \<Rightarrow>
                (let params_new = request_parameters self1 params
                 in case sema self1 of
                      None \<Rightarrow> (Raise (PyError AttributeError), self1)
                    | Some permits \<Rightarrow>
                        if permits = 0 then (Block, self1)
                        else
                          (case request_params self1 of
                             None \<Rightarrow> (Raise (PyError TypeError), self1)
                           | Some rp \<Rightarrow> (Return (url, params_new), self1)))))"

text \<open>
  The whole call. The permit is taken before the GET and given back when the block of
  the semaphore is left, so the semaphore is the same after the call.
\<close>

definition handle_aim_request ::
  "env \<Rightarrow> EPV_constants \<Rightarrow> EPV_AIM \<Rightarrow> string \<Rightarrow> string \<Rightarrow> dict \<Rightarrow> (pyval \<Rightarrow> 'r) \<Rightarrow> net_event
     \<Rightarrow> 'r outcome \<times> EPV_AIM" where
  "handle_aim_request E EPV self method short_url params filter_func ev =
     (case open_request E EPV self method short_url params of
        (Return (url, params_new), self1) \<Rightarrow>
          (case handle_response E url params_new filter_func ev of
             Inl e \<Rightarrow> (Raise e, self1)
           | Inr r \<Rightarrow> (Return r, self1))
      | (Raise e, self1) \<Rightarrow> (Raise e, self1)
      | (Block, self1) \<Rightarrow> (Block, self1))"

definition get_secret_detail ::
  "env \<Rightarrow> EPV_constants \<Rightarrow> EPV_AIM \<Rightarrow> dict \<Rightarrow> net_event \<Rightarrow> (pyval \<times> pyval) outcome \<times> EPV_AIM" where
  "get_secret_detail E EPV self kwargs ev =
     (case handle_aim_request E EPV self ''get'' ''Accounts'' kwargs (\<lambda>x. x) ev of
        (Return detail_info, self1) \<Rightarrow>
          (case py_getitem detail_info ''Content'' of
             Inl e \<Rightarrow> (Raise (PyError e), self1)
           | Inr secret \<Rightarrow> (Return (secret, detail_info), self1))
      | (Raise e, self1) \<Rightarrow> (Raise e, self1)
      | (Block, self1) \<Rightarrow> (Block, self1))"

definition get_secret ::
  "env \<Rightarrow> EPV_constants \<Rightarrow> EPV_AIM \<Rightarrow> dict \<Rightarrow> net_event \<Rightarrow> pyval outcome \<times> EPV_AIM" where
  "get_secret E EPV self kwargs ev =
     (case get_secret_detail E EPV self kwargs ev of
        (Return secret_detail, self1) \<Rightarrow> (Return (fst secret_detail), self1)
      | (Raise e, self1) \<Rightarrow> (Raise e, self1)
      | (Block, self1) \<Rightarrow> (Block, self1))"

section \<open>Validation of a serialized configuration\<close>

text \<open>The built-in \<open>int\<close>.\<close>

fun py_int :: "env \<Rightarrow> pyval \<Rightarrow> py_error + int" where
  "py_int E (PInt n) = Inr n"
| "py_int E (PBool b) = Inr (if b then 1 else 0)"
| "py_int E (PStr s) = (case int_of_str E s of None \<Rightarrow> Inl ValueError | Some n \<Rightarrow> Inr n)"
| "py_int E v = Inl TypeError"

text \<open>
  \<open>EPV_AIM._to_integer\<close>. Its handler of \<open>ValueError\<close> builds a message and raises the
  string itself, which is a \<open>TypeError\<close>; the other arguments only feed that message.
\<close>

definition to_integer :: "env \<Rightarrow> pyval \<Rightarrow> py_error + int" where
  "to_integer E val =
     (case py_int E val of
        Inl e \<Rightarrow> if e = ValueError then Inl TypeError else Inl e
      | Inr v \<Rightarrow> Inr v)"

definition serialized_aim_initial :: "EPV_constants \<Rightarrow> dict" where
  "serialized_aim_initial EPV =
     [(''appid'', PNone), (''cert'', PNone), (''host'', PNone),
      (''keep_cookies'', CYBERARK_DEFAULT_KEEP_COOKIES EPV), (''key'', PNone),
      (''max_concurrent_tasks'', PNone), (''passphrase'', PNone), (''timeout'', PNone),
      (''verify'', PNone)]"

definition invalid_boolean :: "string \<Rightarrow> string \<Rightarrow> pyval \<Rightarrow> pyval \<Rightarrow> fstring" where
  "invalid_boolean keyname section configfile v =
     (if truthy configfile then
        [Lit ''Invalid boolean defintion '', Lit quote, Lit keyname, Lit quote,
         Lit ''  within section '', Lit quote, Lit section, Lit quote, Lit '' in '',
         Str configfile, Lit '': '', Repr v]
      else
        [Lit ''Invalid boolean defintion '', Lit quote, Lit keyname, Lit quote,
         Lit ''  within section '', Lit quote, Lit section, Lit quote, Lit '': '', Repr v])"

definition unknown_attribute :: "string \<Rightarrow> pyval \<Rightarrow> fstring" where
  "unknown_attribute k configfile =
     [Lit ''Unknown attribute '', Lit quote, Lit k, Lit quote, Lit '' within section '',
      Lit quote, Lit ''AIM'', Lit quote, Lit '' in '', Str configfile]"

text \<open>
  The loop over the keys of \<open>serialized\<close>, each key with its value \<open>serialized[k]\<close>; the
  state is \<open>serialized_aim\<close> and the two synonym counters.
\<close>

fun validate_attributes_loop ::
  "env \<Rightarrow> string \<Rightarrow> pyval \<Rightarrow> dict \<Rightarrow> dict \<times> nat \<times> nat \<Rightarrow> exn + dict \<times> nat \<times> nat" where
  "validate_attributes_loop E section configfile [] st = Inr st"
| "validate_attributes_loop E section configfile ((k, v) # items)
       (serialized_aim, synonym_verify, synonym_max_concurrent_tasks) =
     (let keyname = lower k in
      if keyname \<in> set [''appid'', ''cert'', ''host'', ''key'', ''passphrase''] then
        validate_attributes_loop E section configfile items
          (dict_setitem serialized_aim keyname v, synonym_verify, synonym_max_concurrent_tasks)
      else if str_in keyname ''timeout'' then
        (case to_integer E v of
           Inl e \<Rightarrow> Inl (PyError e)
         | Inr n \<Rightarrow>
             validate_attributes_loop E section configfile items
               (dict_setitem serialized_aim keyname (PInt n), synonym_verify,
                synonym_max_concurrent_tasks))
      else if keyname = ''keep_cookies'' then
        (if isinstance_bool v then
           validate_attributes_loop E section configfile items
             (dict_setitem serialized_aim keyname v, synonym_verify,
              synonym_max_concurrent_tasks)
         else Inl (AiobastionConfigurationException
                     (invalid_boolean keyname section configfile v)))
      else if keyname \<in> set [''maxtasks'', ''max_concurrent_tasks''] then
        (case to_integer E v of
           Inl e \<Rightarrow> Inl (PyError e)
         | Inr n \<Rightarrow>
             validate_attributes_loop E section configfile items
               (dict_setitem serialized_aim ''max_concurrent_tasks'' (PInt n), synonym_verify,
                Suc synonym_max_concurrent_tasks))
      else if keyname \<in> set [''ca'', ''verify''] then
        validate_attributes_loop E section configfile items
          (dict_setitem serialized_aim ''verify'' v, Suc synonym_verify,
           synonym_max_concurrent_tasks)
      else Inl (AiobastionConfigurationException (unknown_attribute k configfile)))"

definition init_validate_class_attributes ::
  "env \<Rightarrow> EPV_constants \<Rightarrow> dict \<Rightarrow> string \<Rightarrow> pyval \<Rightarrow> exn + dict" where
  "init_validate_class_attributes E EPV serialized section configfile =
     (case validate_attributes_loop E section configfile serialized
             (serialized_aim_initial EPV, 0, 0) of
        Inl e \<Rightarrow> Inl e
      | Inr (serialized_aim, synonym_verify, synonym_max_concurrent_tasks) \<Rightarrow>
          if synonym_verify > 1 then
            Inl (AiobastionConfigurationException
                   [Lit ''Duplicate synonym parameter: '', Lit quote, Lit ''ca'', Lit quote,
                    Lit '', '', Lit quote, Lit ''verify'', Lit quote, Lit '' within section '',
                    Lit quote, Lit ''AIM'', Lit quote, Lit ''.'',
                    Lit ''Specify only one of them.''])
          else if synonym_max_concurrent_tasks > 1 then
            Inl (AiobastionConfigurationException
                   [Lit ''Duplicate synonym parameter: '', Lit quote, Lit ''maxtasks'', Lit quote,
                    Lit '', '', Lit quote, Lit ''max_concurrent_tasks'', Lit quote, Lit '' '',
                    Lit ''within section '', Lit quote, Lit ''AIM'', Lit quote, Lit '' in '',
                    Str configfile, Lit ''.'', Lit ''Specify only one of them.''])
          else Inr serialized_aim)"

text \<open>
  The members of \<open>http.HTTPStatus\<close> with their phrases, as CPython 3.12 defines them;
  it instantiates the parameter \<open>HTTPStatus\<close> where a concrete table is needed.
\<close>

definition HTTPStatus_table :: "(int \<times> string) list" where
  "HTTPStatus_table =
     [(100, ''Continue''), (101, ''Switching Protocols''), (102, ''Processing''),
      (103, ''Early Hints''), (200, ''OK''), (201, ''Created''), (202, ''Accepted''),
      (203, ''Non-Authoritative Information''), (204, ''No Content''),
      (205, ''Reset Content''), (206, ''Partial Content''), (207, ''Multi-Status''),
      (208, ''Already Reported''), (226, ''IM Used''), (300, ''Multiple Choices''),
      (301, ''Moved Permanently''), (302, ''Found''), (303, ''See Other''),
      (304, ''Not Modified''), (305, ''Use Proxy''), (307, ''Temporary Redirect''),
      (308, ''Permanent Redirect''), (400, ''Bad Request''), (401, ''Unauthorized''),
      (402, ''Payment Required''), (403, ''Forbidden''), (404, ''Not Found''),
      (405, ''Method Not Allowed''), (406, ''Not Acceptable''),
      (407, ''Proxy Authentication Required''), (408, ''Request Timeout''),
      (409, ''Conflict''), (410, ''Gone''), (411, ''Length Required''),
      (412, ''Precondition Failed''), (413, ''Request Entity Too Large''),
      (414, ''Request-URI Too Long''), (415, ''Unsupported Media Type''),
      (416, ''Requested Range Not Satisfiable''), (417, ''Expectation Failed''),
      (418, ''I'' @ quote @ ''m a Teapot''), (421, ''Misdirected Request''),
      (422, ''Unprocessable Entity''), (423, ''Locked''), (424, ''Failed Dependency''),
      (425, ''Too Early''), (426, ''Upgrade Required''), (428, ''Precondition Required''),
      (429, ''Too Many Requests''), (431, ''Request Header Fields Too Large''),
      (451, ''Unavailable For Legal Reasons''), (500, ''Internal Server Error''),
      (501, ''Not Implemented''), (502, ''Bad Gateway''), (503, ''Service Unavailable''),
      (504, ''Gateway Timeout''), (505, ''HTTP Version Not Supported''),
      (506, ''Variant Also Negotiates''), (507, ''Insufficient Storage''),
      (508, ''Loop Detected''), (510, ''Not Extended''),
      (511, ''Network Authentication Required'')]"

text \<open>
  Sample values for concrete runs: an environment where every file exists and nothing in
  \<open>ssl\<close> raises, values for the constants of \<open>EPV\<close>, and a client with the three
  mandatory attributes, no verification and no session yet.
\<close>

definition env0 :: env where
  "env0 = \<lparr>os_path_exists = (\<lambda>p. True), os_path_isdir = (\<lambda>p. False),
           create_default_context = (\<lambda>t. None), load_cert_chain = (\<lambda>c k p. None),
           int_of_str = (\<lambda>s. None), HTTPStatus = map_of HTTPStatus_table\<rparr>"

definition EPV0 :: EPV_constants where
  "EPV0 = \<lparr>CYBERARK_DEFAULT_TIMEOUT = PInt 30, CYBERARK_DEFAULT_MAX_CONCURRENT_TASKS = PInt 10,
           CYBERARK_DEFAULT_KEEP_COOKIES = PBool False, CYBERARK_DEFAULT_VERIFY = PBool False\<rparr>"

definition client0 :: EPV_AIM where
  "client0 = \<lparr>host = PStr ''vault'', appid = PStr ''app1'', cert = PStr ''client.pem'',
              key = PNone, passphrase = PNone, verify = PBool False, timeout = PInt 30,
              max_concurrent_tasks = PInt 10, keep_cookies = PBool False,
              sema = None, session = None, request_params = None,
              sessions_constructed = 0, semaphores_constructed = 0\<rparr>"

section \<open>Properties of the parameter validator\<close>

















section \<open>Properties of the session\<close>



text \<open>The builder changes neither the session, nor the gate, nor the two counters.\<close>

lemma setup_ssl_context_keeps:
  "setup_ssl_context E self src b = (r, self1) \<Longrightarrow>
     session self1 = session self \<and> sema self1 = sema self
     \<and> sessions_constructed self1 = sessions_constructed self
     \<and> semaphores_constructed self1 = semaphores_constructed self
     \<and> max_concurrent_tasks self1 = max_concurrent_tasks self"
  by (auto simp: setup_ssl_context_def split: option.splits)

lemma validate_keeps:
  assumes "validate_and_setup_aim_ssl E EPV self = (r, self1)"
  shows "session self1 = session self \<and> sema self1 = sema self
     \<and> sessions_constructed self1 = sessions_constructed self
     \<and> semaphores_constructed self1 = semaphores_constructed self
     \<and> max_concurrent_tasks self1 = max_concurrent_tasks self"
proof (cases "verify self = PBool False")
  case True
  with assms show ?thesis
    unfolding validate_and_setup_aim_ssl_def Let_def
    by (auto split: if_splits option.splits pyval.splits dest!: setup_ssl_context_keeps)
next
  case False
  with assms show ?thesis
    unfolding validate_and_setup_aim_ssl_def Let_def
    by (auto split: if_splits option.splits pyval.splits dest!: setup_ssl_context_keeps)
qed

text \<open>The builder is a no-op while a session is open.\<close>

lemma validate_noop:
  "session self \<noteq> None \<Longrightarrow> validate_and_setup_aim_ssl E EPV self = (None, self)"
  by (simp add: validate_and_setup_aim_ssl_def)

text \<open>What a call of \<open>get_aim_session\<close> that returns has done.\<close>

lemma get_aim_session_returns:
  assumes "get_aim_session E EPV self = (Inr x, self1)"
  shows "session self1 \<noteq> None \<and> sema self1 \<noteq> None \<and> x = session self1
     \<and> sessions_constructed self1 =
         (if session self = None then Suc (sessions_constructed self)
          else sessions_constructed self)
     \<and> semaphores_constructed self1 =
         (if sema self = None then Suc (semaphores_constructed self)
          else semaphores_constructed self)"
proof (cases "session self = None")
  case open_it: True
  obtain r selfv where v:
    "(if request_params self = None then validate_and_setup_aim_ssl E EPV self
      else (None, self)) = (r, selfv)"
    by (cases "if request_params self = None then validate_and_setup_aim_ssl E EPV self
      else (None, self)") auto
  have keep: "session selfv = session self \<and> sema selfv = sema self
     \<and> sessions_constructed selfv = sessions_constructed self
     \<and> semaphores_constructed selfv = semaphores_constructed self"
    using v validate_keeps[of E EPV self r selfv] by (auto split: if_splits)
  from assms open_it v have rn: "r = None"
    by (cases r) (auto simp: get_aim_session_def)
  show ?thesis
    using assms open_it v rn keep
    by (auto simp: get_aim_session_def Let_def split: if_splits sum.splits)
next
  case False
  with assms show ?thesis
    by (auto simp: get_aim_session_def Let_def simp del: not_None_eq
        split: if_splits sum.splits)
qed

text \<open>
  Claim C9. When a call of \<open>get_aim_session\<close> returns, a second call right after it
  returns the same session and changes nothing: it constructs no session and no
  semaphore. On a closed client (no session, no semaphore) the two calls together have
  constructed exactly one \<open>ClientSession\<close> and one \<open>Semaphore\<close>. Between the two, and as
  long as the session is open, \<open>validate_and_setup_aim_ssl\<close> does nothing.
\<close>

theorem get_aim_session_idempotent:
  assumes "get_aim_session E EPV self = (Inr x, self1)"
  shows "get_aim_session E EPV self1 = (Inr x, self1)
     \<and> validate_and_setup_aim_ssl E EPV self1 = (None, self1)
     \<and> (session self = None \<and> sema self = None \<longrightarrow>
          sessions_constructed (snd (get_aim_session E EPV self1))
            = Suc (sessions_constructed self)
          \<and> semaphores_constructed (snd (get_aim_session E EPV self1))
            = Suc (semaphores_constructed self))"
proof -
  from get_aim_session_returns[OF assms]
  have s: "session self1 \<noteq> None" and g: "sema self1 \<noteq> None" and x: "x = session self1"
    and n: "sessions_constructed self1 =
         (if session self = None then Suc (sessions_constructed self)
          else sessions_constructed self)"
    and m: "semaphores_constructed self1 =
         (if sema self = None then Suc (semaphores_constructed self)
          else semaphores_constructed self)"
    by simp_all
  from s obtain a where a: "session self1 = Some a" by auto
  from g obtain b where b: "sema self1 = Some b" by auto
  have again: "get_aim_session E EPV self1 = (Inr x, self1)"
    using a b x by (simp add: get_aim_session_def)
  show ?thesis
    using again validate_noop[OF s] n m by simp
qed

lemma get_aim_session_client0:
  "get_aim_session env0 EPV0 client0 =
     (Inr (Some 0),
      client0\<lparr>sema := Some 10, session := Some 0,
              request_params := Some (PInt 30,
                \<lparr>trust_source = DefaultStore, check_hostname = False,
                 cert_chain = Some (PStr ''client.pem'', PNone, PNone)\<rparr>),
              sessions_constructed := 1, semaphores_constructed := 1\<rparr>)"
  by (simp add: get_aim_session_def validate_and_setup_aim_ssl_def setup_ssl_context_def
      client0_def env0_def EPV0_def getattr_def)

theorem get_aim_session_idempotent_witness:
  "session client0 = None \<and> sema client0 = None
   \<and> get_aim_session env0 EPV0 (snd (get_aim_session env0 EPV0 client0))
       = get_aim_session env0 EPV0 client0
   \<and> sessions_constructed
        (snd (get_aim_session env0 EPV0 (snd (get_aim_session env0 EPV0 client0)))) = 1
   \<and> semaphores_constructed
        (snd (get_aim_session env0 EPV0 (snd (get_aim_session env0 EPV0 client0)))) = 1"
proof -
  have c: "session client0 = None \<and> sema client0 = None \<and> sessions_constructed client0 = 0
    \<and> semaphores_constructed client0 = 0"
    by (simp add: client0_def)
  from get_aim_session_idempotent[OF get_aim_session_client0] c
  show ?thesis by (simp add: get_aim_session_client0)
qed

text \<open>
  After \<open>close_aim_session\<close> the next call opens anew: it constructs a session and a
  semaphore again, on the \<open>request_params\<close> built before.
\<close>

lemma reopen_after_close:
  assumes "request_params self \<noteq> None"
    and "Semaphore (max_concurrent_tasks self) = Inr permits"
  shows "get_aim_session E EPV (close_aim_session self) =
           (Inr (Some (sessions_constructed self)),
            self\<lparr>sema := Some permits, session := Some (sessions_constructed self),
                 sessions_constructed := Suc (sessions_constructed self),
                 semaphores_constructed := Suc (semaphores_constructed self)\<rparr>)"
  using assms
  by (auto simp: get_aim_session_def close_aim_session_def Let_def)

section \<open>Properties of the request executor\<close>

text \<open>The client of the sample runs issues its GET.\<close>

lemma open_request_client0:
  "open_request env0 EPV0 client0 ''get'' ''Accounts'' [(''safe'', PStr ''s'')] =
     (Return ([Lit ''https://'', Str (PStr ''vault''), Lit ''/AIMWebService/api/'',
               Lit ''Accounts''],
              [(''safe'', PStr ''s''), (''appid'', PStr ''app1'')]),
      client0\<lparr>sema := Some 10, session := Some 0,
              request_params := Some (PInt 30,
                \<lparr>trust_source = DefaultStore, check_hostname = False,
                 cert_chain = Some (PStr ''client.pem'', PNone, PNone)\<rparr>),
              sessions_constructed := 1, semaphores_constructed := 1\<rparr>)"
proof -
  have l: "lower ''get'' = ''get''" by (simp add: lower_char_def)
  show ?thesis
    unfolding open_request_def get_aim_session_client0 l
    by (simp add: get_url_def request_parameters_def dict_setdefault_def dict_in_def
        client0_def)
qed

text \<open>\<open>get_secret_detail\<close> and \<open>get_secret\<close> pass on what the executor raises.\<close>

lemma get_secret_raises:
  assumes "handle_aim_request E EPV self ''get'' ''Accounts'' kwargs (\<lambda>x. x) ev = (Raise e, self1)"
  shows "get_secret_detail E EPV self kwargs ev = (Raise e, self1)"
    and "get_secret E EPV self kwargs ev = (Raise e, self1)"
  using assms by (simp_all add: get_secret_detail_def get_secret_def)

text \<open>
  Claim C1, as stated, fails on a body that is not an object. On \<open>null\<close> the test
  \<open>"Content" not in resp_json\<close> is itself a \<open>TypeError\<close>, which no handler catches, so
  the executor raises \<open>TypeError\<close> and no \<open>CyberarkAPIException\<close>. On the list
  \<open>["Content"]\<close>, which has no key at all, the test finds the element and the executor
  returns the list as a success.
\<close>

theorem non_object_body_is_not_invalid_json:
  "fst (handle_aim_request env0 EPV0 client0 ''get'' ''Accounts'' [(''safe'', PStr ''s'')]
          (\<lambda>x. x) (Response 200 (JsonBody PNone)))
     = Raise (PyError TypeError)
   \<and> fst (handle_aim_request env0 EPV0 client0 ''get'' ''Accounts'' [(''safe'', PStr ''s'')]
          (\<lambda>x. x) (Response 200 (JsonBody (PList [PStr ''Content'']))))
     = Return (PList [PStr ''Content''])"
  unfolding handle_aim_request_def open_request_client0
  by (simp add: handle_response_def try_body_def inner_handlers_def outer_handler_def)

text \<open>
  Claim C1, amended. When the GET is issued and the response has status 200 and a JSON
  body that is an object without the key \<open>Content\<close>, \<open>handle_aim_request\<close> raises
  \<open>CyberarkAPIException\<close> with the code \<open>INVALID_JSON\<close>, whatever \<open>filter_func\<close> is; so do
  \<open>get_secret_detail\<close> and \<open>get_secret\<close>, which call it with the method \<open>get\<close> on
  \<open>Accounts\<close>. Nothing is returned.
\<close>

theorem missing_content_raises_invalid_json:
  assumes "open_request E EPV self method short_url params = (Return (url, params_new), self1)"
    and "\<not> dict_in ''Content'' resp_json"
  shows "handle_aim_request E EPV self method short_url params filter_func
           (Response 200 (JsonBody (PDict resp_json)))
         = (Raise (CyberarkAPIException 200 (PStr ''INVALID_JSON'')
                     (PStr content_not_found)
                     (Formatted (handle_error_detail_info url params_new))), self1)
     \<and> (method = ''get'' \<and> short_url = ''Accounts'' \<longrightarrow>
          fst (get_secret_detail E EPV self params (Response 200 (JsonBody (PDict resp_json))))
            = Raise (CyberarkAPIException 200 (PStr ''INVALID_JSON'')
                     (PStr content_not_found)
                     (Formatted (handle_error_detail_info url params_new)))
          \<and> fst (get_secret E EPV self params (Response 200 (JsonBody (PDict resp_json))))
            = Raise (CyberarkAPIException 200 (PStr ''INVALID_JSON'')
                     (PStr content_not_found)
                     (Formatted (handle_error_detail_info url params_new))))"
proof -
  let ?e = "CyberarkAPIException 200 (PStr ''INVALID_JSON'')
                     (PStr content_not_found)
                     (Formatted (handle_error_detail_info url params_new))"
  have r: "handle_response E url params_new f (Response 200 (JsonBody (PDict resp_json)))
             = Inl ?e" for f :: "pyval \<Rightarrow> 'b"
    using assms(2)
    by (simp add: handle_response_def try_body_def inner_handlers_def outer_handler_def)
  have h: "handle_aim_request E EPV self method short_url params f
             (Response 200 (JsonBody (PDict resp_json))) = (Raise ?e, self1)"
    for f :: "pyval \<Rightarrow> 'b"
    using assms(1) r[of f] by (simp add: handle_aim_request_def)
  show ?thesis
    using h[of filter_func] get_secret_raises[of E EPV self params _ ?e self1]
      h[of "\<lambda>x. x"]
    by auto
qed

theorem missing_content_raises_invalid_json_witness:
  "\<not> dict_in ''Content'' [(''X'', PInt 1)]
   \<and> fst (get_secret env0 EPV0 client0 [(''safe'', PStr ''s'')]
           (Response 200 (JsonBody (PDict [(''X'', PInt 1)]))))
     = Raise (CyberarkAPIException 200 (PStr ''INVALID_JSON'')
               (PStr content_not_found)
               (Formatted (handle_error_detail_info
                  [Lit ''https://'', Str (PStr ''vault''), Lit ''/AIMWebService/api/'',
                   Lit ''Accounts'']
                  [(''safe'', PStr ''s''), (''appid'', PStr ''app1'')])))"
proof -
  have n: "\<not> dict_in ''Content'' [(''X'', PInt 1)]" by (simp add: dict_in_def)
  note t = missing_content_raises_invalid_json[OF open_request_client0 n, of "\<lambda>x. x"]
  from t n show ?thesis by blast
qed

text \<open>
  Whether or not the GET is issued, a response of status 200 whose object has no
  \<open>Content\<close> never makes the executor return.
\<close>

lemma missing_content_never_returns:
  assumes "\<not> dict_in ''Content'' resp_json"
  shows "fst (handle_aim_request E EPV self method short_url params filter_func
                (Response 200 (JsonBody (PDict resp_json)))) \<noteq> Return r"
proof -
  have "handle_response E url params_new filter_func
          (Response 200 (JsonBody (PDict resp_json))) \<noteq> Inr r" for url params_new
    using assms
    by (simp add: handle_response_def try_body_def inner_handlers_def outer_handler_def)
  then show ?thesis
    by (auto simp: handle_aim_request_def split: prod.splits outcome.splits sum.splits)
qed

text \<open>
  On \<open>null\<close> the \<open>TypeError\<close> does not depend on the client, the URL or the parameters.
\<close>

lemma null_body_raises_TypeError:
  "handle_response E url params_new filter_func (Response 200 (JsonBody PNone))
     = Inl (PyError TypeError)"
  by (simp add: handle_response_def try_body_def inner_handlers_def outer_handler_def)

text \<open>
  Claim C2. When the GET is issued and the response has a status other than 200 and a
  JSON object with both \<open>ErrorCode\<close> and \<open>ErrorMsg\<close>: \<open>handle_aim_request\<close> raises
  \<open>CyberarkAIMnotFound\<close> when \<open>ErrorCode\<close> is \<open>APPAP004E\<close>, and \<open>CyberarkAPIException\<close> for
  any other value; both carry the status and the two values of the body as they are.
\<close>

theorem error_code_classification:
  assumes "open_request E EPV self method short_url params = (Return (url, params_new), self1)"
    and "status \<noteq> 200"
    and "map_of resp_json ''ErrorCode'' = Some error_code"
    and "map_of resp_json ''ErrorMsg'' = Some error_msg"
  shows "handle_aim_request E EPV self method short_url params filter_func
           (Response status (JsonBody (PDict resp_json)))
         = (Raise (if error_code = PStr ''APPAP004E''
                   then CyberarkAIMnotFound status error_code error_msg
                          (details_of url params_new resp_json)
                   else CyberarkAPIException status error_code error_msg
                          (details_of url params_new resp_json)), self1)"
proof -
  have t: "try_body E url params_new filter_func status (JsonBody (PDict resp_json))
         = Inl (if error_code = PStr ''APPAP004E''
                   then CyberarkAIMnotFound status error_code error_msg
                          (details_of url params_new resp_json)
                   else CyberarkAPIException status error_code error_msg
                          (details_of url params_new resp_json))"
    using assms(2-4)
    by (cases "map_of resp_json ''Details''")
       (simp_all add: try_body_def details_of_def dict_in_def dict_getitem_def)
  show ?thesis
    using assms(1) t
    by (simp add: handle_aim_request_def handle_response_def inner_handlers_def
        outer_handler_def)
qed

theorem error_code_classification_witness:
  "fst (handle_aim_request env0 EPV0 client0 ''get'' ''Accounts'' [(''safe'', PStr ''s'')]
          (\<lambda>x. x)
          (Response 404 (JsonBody (PDict [(''ErrorCode'', PStr ''APPAP004E''),
                                          (''ErrorMsg'', PStr ''not found'')]))))
     = Raise (CyberarkAIMnotFound 404 (PStr ''APPAP004E'') (PStr ''not found'')
               (Formatted (handle_error_detail_info
                  [Lit ''https://'', Str (PStr ''vault''), Lit ''/AIMWebService/api/'',
                   Lit ''Accounts'']
                  [(''safe'', PStr ''s''), (''appid'', PStr ''app1'')])))
   \<and> fst (handle_aim_request env0 EPV0 client0 ''get'' ''Accounts'' [(''safe'', PStr ''s'')]
          (\<lambda>x. x)
          (Response 403 (JsonBody (PDict [(''ErrorCode'', PStr ''APPAP306E''),
                                          (''ErrorMsg'', PStr ''denied''),
                                          (''Details'', PStr ''d'')]))))
     = Raise (CyberarkAPIException 403 (PStr ''APPAP306E'') (PStr ''denied'')
               (FromBody (PStr ''d'')))"
proof -
  have s1: "(404::int) \<noteq> 200" and s2: "(403::int) \<noteq> 200" by simp_all
  have a1: "map_of [(''ErrorCode'', PStr ''APPAP004E''), (''ErrorMsg'', PStr ''not found'')]
              ''ErrorCode'' = Some (PStr ''APPAP004E'')"
    and a2: "map_of [(''ErrorCode'', PStr ''APPAP004E''), (''ErrorMsg'', PStr ''not found'')]
              ''ErrorMsg'' = Some (PStr ''not found'')"
    by simp_all
  have b1: "map_of [(''ErrorCode'', PStr ''APPAP306E''), (''ErrorMsg'', PStr ''denied''),
                    (''Details'', PStr ''d'')] ''ErrorCode'' = Some (PStr ''APPAP306E'')"
    and b2: "map_of [(''ErrorCode'', PStr ''APPAP306E''), (''ErrorMsg'', PStr ''denied''),
                    (''Details'', PStr ''d'')] ''ErrorMsg'' = Some (PStr ''denied'')"
    by simp_all
  from error_code_classification[OF open_request_client0 s1 a1 a2, of "\<lambda>x. x"]
       error_code_classification[OF open_request_client0 s2 b1 b2, of "\<lambda>x. x"]
  show ?thesis by (simp add: details_of_def)
qed

text \<open>
  Claim C5, as stated, fails: 520 is not a member of \<open>HTTPStatus\<close>, so \<open>HTTPStatus(520)\<close>
  raises \<open>ValueError\<close>, which the second handler turns into a \<open>CyberarkException\<close>.
\<close>

theorem nonstandard_status_raises_CyberarkException:
  "fst (handle_aim_request env0 EPV0 client0 ''get'' ''Accounts'' [(''safe'', PStr ''s'')]
          (\<lambda>x. x) (Response 520 (JsonBody (PDict []))))
     = Raise (CyberarkException
               ([Lit ''HTTP error '', Str (PInt 520), Lit '': '', StrErr ValueError,
                 Lit '' || Additional Details : '']
                @ handle_error_detail_info
                    [Lit ''https://'', Str (PStr ''vault''), Lit ''/AIMWebService/api/'',
                     Lit ''Accounts'']
                    [(''safe'', PStr ''s''), (''appid'', PStr ''app1'')]))"
proof -
  have m: "HTTPStatus env0 520 = None"
    by (simp add: env0_def HTTPStatus_table_def)
  show ?thesis
    unfolding handle_aim_request_def open_request_client0
    by (simp add: handle_response_def try_body_def inner_handlers_def outer_handler_def
        dict_in_def m)
qed

text \<open>
  Claim C5, amended. When the GET is issued and the response has a status other than
  200 and a JSON object that lacks \<open>ErrorCode\<close> or \<open>ErrorMsg\<close>: for a status that is a
  member of \<open>HTTPStatus\<close>, \<open>handle_aim_request\<close> raises \<open>CyberarkAPIException\<close> with the code
  \<open>HTTP_ERR_CODE\<close> and the phrase of the member; for any other status it raises
  \<open>CyberarkException\<close>, made from the \<open>ValueError\<close> of \<open>HTTPStatus\<close>.
\<close>

theorem http_error_classification:
  assumes "open_request E EPV self method short_url params = (Return (url, params_new), self1)"
    and "status \<noteq> 200"
    and "\<not> (dict_in ''ErrorCode'' resp_json \<and> dict_in ''ErrorMsg'' resp_json)"
  shows "handle_aim_request E EPV self method short_url params filter_func
           (Response status (JsonBody (PDict resp_json)))
         = (Raise (case HTTPStatus E status of
                     Some phrase \<Rightarrow>
                       CyberarkAPIException status (PStr ''HTTP_ERR_CODE'') (PStr phrase)
                         (details_of url params_new resp_json)
                   | None \<Rightarrow>
                       CyberarkException
                         ([Lit ''HTTP error '', Str (PInt status), Lit '': '', StrErr ValueError,
                           Lit '' || Additional Details : '']
                          @ handle_error_detail_info url params_new)), self1)"
proof -
  have t: "try_body E url params_new filter_func status (JsonBody (PDict resp_json))
         = (case HTTPStatus E status of
              Some phrase \<Rightarrow>
                Inl (CyberarkAPIException status (PStr ''HTTP_ERR_CODE'') (PStr phrase)
                       (details_of url params_new resp_json))
            | None \<Rightarrow> Inl (PyError ValueError))"
    using assms(2,3)
    by (cases "map_of resp_json ''Details''")
       (auto simp add: try_body_def details_of_def dict_in_def dict_getitem_def
         split: option.splits)
  show ?thesis
    using assms(1) t
    by (cases "HTTPStatus E status")
       (simp_all add: handle_aim_request_def handle_response_def inner_handlers_def
         outer_handler_def)
qed

theorem http_error_classification_witness:
  "fst (handle_aim_request env0 EPV0 client0 ''get'' ''Accounts'' [(''safe'', PStr ''s'')]
          (\<lambda>x. x) (Response 404 (JsonBody (PDict [(''ErrorMsg'', PStr ''m'')]))))
     = Raise (CyberarkAPIException 404 (PStr ''HTTP_ERR_CODE'') (PStr ''Not Found'')
               (Formatted (handle_error_detail_info
                  [Lit ''https://'', Str (PStr ''vault''), Lit ''/AIMWebService/api/'',
                   Lit ''Accounts'']
                  [(''safe'', PStr ''s''), (''appid'', PStr ''app1'')])))"
proof -
  have s: "(404::int) \<noteq> 200" by simp
  have n: "\<not> (dict_in ''ErrorCode'' [(''ErrorMsg'', PStr ''m'')]
              \<and> dict_in ''ErrorMsg'' [(''ErrorMsg'', PStr ''m'')])"
    by (simp add: dict_in_def)
  have m: "HTTPStatus env0 404 = Some ''Not Found''"
    by (simp add: env0_def HTTPStatus_table_def)
  from http_error_classification[OF open_request_client0 s n, of "\<lambda>x. x"]
  show ?thesis by (simp add: m details_of_def)
qed

text \<open>
  Without the key \<open>applid\<close> in the parameters, the default \<open>appid\<close> is added exactly when
  the caller gave none, and a value of the caller is kept.
\<close>

lemma request_parameters_without_applid:
  "\<not> dict_in ''applid'' params \<Longrightarrow>
     request_parameters self params =
       (if dict_in ''appid'' params then params else params @ [(''appid'', appid self)])"
  by (simp add: request_parameters_def dict_setdefault_def)

text \<open>
  Claim C6 on the code: line 414 tests the key \<open>applid\<close>, not \<open>appid\<close>. A caller who
  passes \<open>applid\<close> and no \<open>appid\<close> gets a GET without \<open>appid\<close>: the default of the client is
  not injected.
\<close>

theorem applid_key_skips_injection:
  "appid client0 = PStr ''app1''
   \<and> \<not> dict_in ''appid'' [(''applid'', PStr ''x'')]
   \<and> fst (open_request env0 EPV0 client0 ''get'' ''Accounts'' [(''applid'', PStr ''x'')])
       = Return ([Lit ''https://'', Str (PStr ''vault''), Lit ''/AIMWebService/api/'',
                  Lit ''Accounts''],
                 [(''applid'', PStr ''x'')])"
proof -
  have l: "lower ''get'' = ''get''" by (simp add: lower_char_def)
  show ?thesis
    unfolding open_request_def get_aim_session_client0 l
    by (simp add: get_url_def request_parameters_def dict_in_def client0_def)
qed

section \<open>Properties of the constructor and of the configuration\<close>

text \<open>
  Claim C3 on the code: with \<open>verify=True\<close> and no serialized dictionary, \<open>__init__\<close>
  raises, whatever the other arguments are.
\<close>

theorem init_verify_True_raises:
  "EPV_AIM_init EPV h a c k p (PBool True) t m kc None
     = Inl (AiobastionException
              [Lit ''Invalid type for parameter '', Lit quote, Lit ''verify'', Lit quote,
               Lit '' in AIM: '', TypeOf (PBool True), Lit '' value: '', Repr (PBool True)])"
  by (simp add: EPV_AIM_init_def Let_def isinstance_str_def isinstance_bool_def)

text \<open>
  The builder itself takes \<open>True\<close>: on a client whose \<open>verify\<close> is \<open>True\<close> it builds a
  context on the default store that checks host names.
\<close>

lemma builder_verify_True:
  assumes "session self = None"
    and "host self \<noteq> PNone" and "appid self \<noteq> PNone" and "cert self \<noteq> PNone"
    and "os_path_exists E (cert self)"
    and "truthy (key self) \<longrightarrow> os_path_exists E (key self)"
    and "verify self = PBool True"
    and "create_default_context E DefaultStore = None"
    and "load_cert_chain E (cert self) (key self) (passphrase self) = None"
  shows "validate_and_setup_aim_ssl E EPV self =
           (None, self\<lparr>request_params :=
              Some (timeout self,
                    \<lparr>trust_source = DefaultStore, check_hostname = True,
                     cert_chain = Some (cert self, key self, passphrase self)\<rparr>)\<rparr>)"
  using assms
  by (auto simp: validate_and_setup_aim_ssl_def setup_ssl_context_def getattr_def)

text \<open>
  Claim C8 on the code: \<open>time\<close> is none of the accepted names, but it is a substring of
  \<open>timeout\<close>, which is what line 112 tests. The call returns, and the value is stored
  under the new key \<open>time\<close>.
\<close>

theorem substring_of_timeout_is_accepted:
  "init_validate_class_attributes E EPV [(''time'', PInt 30)] section configfile
     = Inr (serialized_aim_initial EPV @ [(''time'', PInt 30)])"
  by (simp add: init_validate_class_attributes_def serialized_aim_initial_def to_integer_def
      lower_char_def)

text \<open>A key that is no substring of \<open>timeout\<close> and none of the names is refused.\<close>

lemma unknown_attribute_raises:
  "init_validate_class_attributes E EPV [(''port'', PInt 30)] section configfile
     = Inl (AiobastionConfigurationException (unknown_attribute ''port'' configfile))"
  by (simp add: init_validate_class_attributes_def lower_char_def)

text \<open>
  The KELVIN SIGN lowers to \<open>k\<close>: a key spelled with it and \<open>ey\<close> is taken as \<open>key\<close>.
\<close>

lemma kelvin_sign_key:
  "init_validate_class_attributes E EPV
     [([CHR 0xE2, CHR 0x84, CHR 0xAA, CHR ''e'', CHR ''y''], PStr ''k.pem'')] section configfile
     = Inr (dict_setitem (serialized_aim_initial EPV) ''key'' (PStr ''k.pem''))"
  by (simp add: init_validate_class_attributes_def serialized_aim_initial_def lower_char_def)

end
